theory Spec2Isabelle
  imports Main
begin

section \<open>The custom CDPR template \<^verbatim>\<open>custom_C.c\<close>\<close>

text \<open>
  The file defines five entry points of the shape
  \<^verbatim>\<open>void f(double* out, double* q, double* q_dot, double* q_ddot, double* W_e)\<close>
  and an empty \<^verbatim>\<open>mexFunction\<close>. Every entry point reads cells of \<^verbatim>\<open>q\<close> and
  \<^verbatim>\<open>q_dot\<close> and assigns cells of its first argument, one C statement after the other.
  Nothing in the signature keeps the five pointers apart, so the memory is modelled as one
  store shared by all of them, and each function maps the store before the call to the
  store after it.
\<close>

subsection \<open>Values of type \<^verbatim>\<open>double\<close>\<close>

text \<open>
  A \<^verbatim>\<open>double\<close> is an IEEE 754 binary64 datum. \<open>Finite s m e\<close> stands for
  \<open>(-1)\<^sup>s \<sqdot> m \<sqdot> 2\<^sup>e\<close> with \<open>m < 2\<^sup>5\<^sup>3\<close> and \<open>-1074 \<le> e \<le> 971\<close>, where
  \<open>2\<^sup>5\<^sup>2 \<le> m\<close> unless \<open>e = -1074\<close> (zero and the subnormal numbers), so that
  every number has one representation. The payload of a NaN is not modelled. Each
  operation of the source rounds once to binary64: an expression such as
  \<^verbatim>\<open>q[0]*2 + q_dot[0]\<close> is a multiplication followed by an addition.
\<close>

datatype double = Finite bool nat int | Infinity bool | NaN

text \<open>The number of binary digits of a natural number.\<close>

fun bit_length :: "nat \<Rightarrow> nat" where
  "bit_length n = (if n = 0 then 0 else Suc (bit_length (n div 2)))"

declare bit_length.simps [simp del]

text \<open>
  \<open>round_double s M E\<close> is the binary64 datum nearest to \<open>(-1)\<^sup>s \<sqdot> M \<sqdot> 2\<^sup>E\<close>, ties to
  the even significand (the rounding mode a C program starts in). The target exponent
  \<open>e\<close> leaves 53 digits, or fewer at the bottom of the range; above the top of the range
  the result is an infinity.
\<close>

definition round_double :: "bool \<Rightarrow> nat \<Rightarrow> int \<Rightarrow> double" where
  "round_double s M E =
     (if M = 0 then Finite s 0 (- 1074)
      else
        let e = max (E + int (bit_length M) - 53) (- 1074);
            k = nat (e - E);
            qt = M div 2 ^ k;
            r = M mod 2 ^ k;
            m = (if e \<le> E then M * 2 ^ nat (E - e)
                 else if 2 ^ k < 2 * r \<or> (2 * r = 2 ^ k \<and> odd qt) then qt + 1
                 else qt);
            m' = (if m = 2 ^ 53 then 2 ^ 52 else m);
            e' = (if m = 2 ^ 53 then e + 1 else e)
        in if 971 < e' then Infinity s else Finite s m' e')"

text \<open>The conversion of an \<^verbatim>\<open>int\<close> constant to \<^verbatim>\<open>double\<close>, as in \<^verbatim>\<open>q[0]*2\<close>.\<close>

definition double_of_int :: "int \<Rightarrow> double" where
  "double_of_int i = round_double (i < 0) (nat \<bar>i\<bar>) 0"

definition signed :: "bool \<Rightarrow> int \<Rightarrow> int" where
  "signed s x = (if s then - x else x)"

fun double_add :: "double \<Rightarrow> double \<Rightarrow> double" where
  "double_add NaN y = NaN"
| "double_add x NaN = NaN"
| "double_add (Infinity s) (Infinity t) = (if s = t then Infinity s else NaN)"
| "double_add (Infinity s) (Finite t n f) = Infinity s"
| "double_add (Finite s m e) (Infinity t) = Infinity t"
| "double_add (Finite s m e) (Finite t n f) =
     (let g = min e f;
          x = signed s (int m * 2 ^ nat (e - g)) + signed t (int n * 2 ^ nat (f - g))
      in if x = 0 then Finite (s \<and> t) 0 (- 1074)
         else round_double (x < 0) (nat \<bar>x\<bar>) g)"

fun double_neg :: "double \<Rightarrow> double" where
  "double_neg NaN = NaN"
| "double_neg (Infinity s) = Infinity (\<not> s)"
| "double_neg (Finite s m e) = Finite (\<not> s) m e"

definition double_sub :: "double \<Rightarrow> double \<Rightarrow> double" where
  "double_sub x y = double_add x (double_neg y)"

fun double_mul :: "double \<Rightarrow> double \<Rightarrow> double" where
  "double_mul NaN y = NaN"
| "double_mul x NaN = NaN"
| "double_mul (Infinity s) (Infinity t) = Infinity (s \<noteq> t)"
| "double_mul (Infinity s) (Finite t n f) = (if n = 0 then NaN else Infinity (s \<noteq> t))"
| "double_mul (Finite s m e) (Infinity t) = (if m = 0 then NaN else Infinity (s \<noteq> t))"
| "double_mul (Finite s m e) (Finite t n f) = round_double (s \<noteq> t) (m * n) (e + f)"

subsection \<open>The store\<close>

text \<open>
  An address counts \<^verbatim>\<open>double\<close> cells, so that \<^verbatim>\<open>p[i]\<close> is the cell \<open>p + i\<close>. The store
  gives every cell its content.
\<close>

type_synonym addr = nat

type_synonym mem = "addr \<Rightarrow> double"

subsection \<open>The entry points\<close>

text \<open>\<^verbatim>\<open>l[0] = q_dot[0];\<close>\<close>

definition customCableLengths :: "addr \<Rightarrow> addr \<Rightarrow> addr \<Rightarrow> addr \<Rightarrow> addr \<Rightarrow> mem \<Rightarrow> mem" where
  "customCableLengths l q q_dot q_ddot W_e h = h(l := h q_dot)"

text \<open>\<^verbatim>\<open>M[0] = q[0]; M[1] = q[1]; M[2] = q[2];\<close>\<close>

definition customM :: "addr \<Rightarrow> addr \<Rightarrow> addr \<Rightarrow> addr \<Rightarrow> addr \<Rightarrow> mem \<Rightarrow> mem" where
  "customM M q q_dot q_ddot W_e h =
     (let h1 = h(M := h q);
          h2 = h1(M + 1 := h1 (q + 1));
          h3 = h2(M + 2 := h2 (q + 2))
      in h3)"

text \<open>\<^verbatim>\<open>C[i] = q[i]*2 + q_dot[i];\<close> for \<open>i = 0, 1, 2\<close>, in this order.\<close>

definition customC :: "addr \<Rightarrow> addr \<Rightarrow> addr \<Rightarrow> addr \<Rightarrow> addr \<Rightarrow> mem \<Rightarrow> mem" where
  "customC C q q_dot q_ddot W_e h =
     (let h1 = h(C := double_add (double_mul (h q) (double_of_int 2)) (h q_dot));
          h2 = h1(C + 1 :=
                 double_add (double_mul (h1 (q + 1)) (double_of_int 2)) (h1 (q_dot + 1)));
          h3 = h2(C + 2 :=
                 double_add (double_mul (h2 (q + 2)) (double_of_int 2)) (h2 (q_dot + 2)))
      in h3)"

text \<open>\<^verbatim>\<open>G[i] = q[i]*3 - q_dot[i];\<close> for \<open>i = 0, 1, 2\<close>, in this order.\<close>

definition customG :: "addr \<Rightarrow> addr \<Rightarrow> addr \<Rightarrow> addr \<Rightarrow> addr \<Rightarrow> mem \<Rightarrow> mem" where
  "customG G q q_dot q_ddot W_e h =
     (let h1 = h(G := double_sub (double_mul (h q) (double_of_int 3)) (h q_dot));
          h2 = h1(G + 1 :=
                 double_sub (double_mul (h1 (q + 1)) (double_of_int 3)) (h1 (q_dot + 1)));
          h3 = h2(G + 2 :=
                 double_sub (double_mul (h2 (q + 2)) (double_of_int 3)) (h2 (q_dot + 2)))
      in h3)"

text \<open>\<^verbatim>\<open>L[i] = q[i] * q_dot[i];\<close> for \<open>i = 0, 1, 2\<close>, in this order.\<close>

definition customL :: "addr \<Rightarrow> addr \<Rightarrow> addr \<Rightarrow> addr \<Rightarrow> addr \<Rightarrow> mem \<Rightarrow> mem" where
  "customL L q q_dot q_ddot W_e h =
     (let h1 = h(L := double_mul (h q) (h q_dot));
          h2 = h1(L + 1 := double_mul (h1 (q + 1)) (h1 (q_dot + 1)));
          h3 = h2(L + 2 := double_mul (h2 (q + 2)) (h2 (q_dot + 2)))
      in h3)"

text \<open>
  \<^verbatim>\<open>void mexFunction(int nlhs, mxArray *plhs[], int nrhs, const mxArray *prhs[]) { }\<close>:
  the body is empty. The state \<open>s\<close> is everything the program can reach, whatever its
  type; the two arrays are given by their addresses.
\<close>

definition mexFunction :: "int \<Rightarrow> addr \<Rightarrow> int \<Rightarrow> addr \<Rightarrow> 's \<Rightarrow> 's" where
  "mexFunction nlhs plhs nrhs prhs s = s"

subsection \<open>Vectors in the store, and a sample store\<close>

text \<open>The first three cells of the vector at \<open>p\<close>: \<^verbatim>\<open>p[0], p[1], p[2]\<close>.\<close>

definition vec3 :: "addr \<Rightarrow> mem \<Rightarrow> double list" where
  "vec3 p h = [h p, h (p + 1), h (p + 2)]"

text \<open>Two stores hold the same vector of length \<open>n\<close> at \<open>p\<close>.\<close>

definition same_vector :: "addr \<Rightarrow> nat \<Rightarrow> mem \<Rightarrow> mem \<Rightarrow> bool" where
  "same_vector p n h1 h2 = (\<forall>i<n. h1 (p + i) = h2 (p + i))"

text \<open>
  The store of the worked example: \<open>q = [1, 2, 3]\<close> at address 10, \<open>q_dot = [4, 5, 6]\<close>
  at address 20, zero everywhere else. The examples below put \<open>q_ddot\<close> at 30 and
  \<open>W_e\<close> at 40.
\<close>

definition example_mem :: mem where
  "example_mem a =
     (if a = 10 then double_of_int 1 else if a = 11 then double_of_int 2
      else if a = 12 then double_of_int 3 else if a = 20 then double_of_int 4
      else if a = 21 then double_of_int 5 else if a = 22 then double_of_int 6
      else double_of_int 0)"

text \<open>
  The same input vectors in a store whose cells 0, 1, 2 still hold what an earlier call
  left there.
\<close>

definition stale_mem :: mem where
  "stale_mem = example_mem(0 := double_of_int 7, 1 := double_of_int 8, 2 := double_of_int 9)"

text \<open>The same \<open>q\<close> and \<open>q_dot\<close> with other contents at 30 and 40.\<close>

definition other_mem :: mem where
  "other_mem = example_mem(30 := double_of_int 7, 40 := double_of_int 8)"



section \<open>Properties\<close>

subsection \<open>Arithmetic on \<^verbatim>\<open>double\<close>\<close>

text \<open>The digits of a numeral are counted one at a time.\<close>

lemma bit_length_numeral:
  "bit_length 0 = 0"
  "bit_length 1 = 1"
  "bit_length (Suc 0) = 1"
  "bit_length (numeral (Num.Bit0 k)) = Suc (bit_length (numeral k))"
  "bit_length (numeral (Num.Bit1 k)) = Suc (bit_length (numeral k))"
proof -
  show "bit_length 0 = 0" by (simp add: bit_length.simps)
  show "bit_length 1 = 1" by (simp add: bit_length.simps)
  show "bit_length (Suc 0) = 1" by (simp add: bit_length.simps)
  show "bit_length (numeral (Num.Bit0 k)) = Suc (bit_length (numeral k))"
    by (subst bit_length.simps) simp
  show "bit_length (numeral (Num.Bit1 k)) = Suc (bit_length (numeral k))"
    by (subst bit_length.simps) simp
qed

lemmas double_eval =
  double_of_int_def round_double_def bit_length_numeral signed_def double_sub_def Let_def

lemma double_mul_commute: "double_mul x y = double_mul y x"
proof (cases x; cases y)
  fix s m e t n f
  assume "x = Finite s m e" "y = Finite t n f"
  moreover have "(s \<noteq> t) = (t \<noteq> s)" by auto
  ultimately show ?thesis by (simp add: mult.commute add.commute)
qed auto

lemma small_doubles_distinct:
  "double_of_int 1 \<noteq> double_of_int 2"
  "double_of_int 1 \<noteq> double_of_int 4"
  "double_of_int 17 \<noteq> double_of_int 9"
  "double_of_int (- 8) \<noteq> double_of_int 1"
  "double_of_int 20 \<noteq> double_of_int 10"
  by (simp_all add: double_eval)

lemma sample_customC_arith:
  "double_add (double_mul (double_of_int 1) (double_of_int 2)) (double_of_int 4) = double_of_int 6"
  "double_add (double_mul (double_of_int 2) (double_of_int 2)) (double_of_int 5) = double_of_int 9"
  "double_add (double_mul (double_of_int 3) (double_of_int 2)) (double_of_int 6) = double_of_int 12"
  "double_add (double_mul (double_of_int 6) (double_of_int 2)) (double_of_int 5) = double_of_int 17"
  "double_add (double_mul (double_of_int 2) (double_of_int 3)) (double_of_int 6) = double_of_int 12"
  by (simp_all add: double_eval)

lemma sample_customG_arith:
  "double_sub (double_mul (double_of_int 1) (double_of_int 3)) (double_of_int 4) = double_of_int (- 1)"
  "double_sub (double_mul (double_of_int 2) (double_of_int 3)) (double_of_int 5) = double_of_int 1"
  "double_sub (double_mul (double_of_int 3) (double_of_int 3)) (double_of_int 6) = double_of_int 3"
  "double_sub (double_mul (double_of_int (- 1)) (double_of_int 3)) (double_of_int 5) = double_of_int (- 8)"
  "double_sub (double_mul (double_of_int 3) (double_of_int 2)) (double_of_int 5) = double_of_int 1"
  by (simp_all add: double_eval)

lemma sample_customL_arith:
  "double_mul (double_of_int 1) (double_of_int 4) = double_of_int 4"
  "double_mul (double_of_int 2) (double_of_int 5) = double_of_int 10"
  "double_mul (double_of_int 3) (double_of_int 6) = double_of_int 18"
  "double_mul (double_of_int 4) (double_of_int 5) = double_of_int 20"
  by (simp_all add: double_eval)

subsection \<open>What each entry point leaves in the store\<close>

lemma index_below_3: "i < 3 \<Longrightarrow> i = 0 \<or> i = 1 \<or> i = (2::nat)"
  by arith

lemma customCableLengths_frame:
  "a \<noteq> l \<Longrightarrow> customCableLengths l q q_dot q_ddot W_e h a = h a"
  by (simp add: customCableLengths_def)

lemma customM_frame:
  "a \<noteq> M \<Longrightarrow> a \<noteq> M + 1 \<Longrightarrow> a \<noteq> M + 2 \<Longrightarrow> customM M q q_dot q_ddot W_e h a = h a"
  by (simp add: customM_def Let_def)

lemma customC_frame:
  "a \<noteq> C \<Longrightarrow> a \<noteq> C + 1 \<Longrightarrow> a \<noteq> C + 2 \<Longrightarrow> customC C q q_dot q_ddot W_e h a = h a"
  by (simp add: customC_def Let_def)

lemma customG_frame:
  "a \<noteq> G \<Longrightarrow> a \<noteq> G + 1 \<Longrightarrow> a \<noteq> G + 2 \<Longrightarrow> customG G q q_dot q_ddot W_e h a = h a"
  by (simp add: customG_def Let_def)

lemma customL_frame:
  "a \<noteq> L \<Longrightarrow> a \<noteq> L + 1 \<Longrightarrow> a \<noteq> L + 2 \<Longrightarrow> customL L q q_dot q_ddot W_e h a = h a"
  by (simp add: customL_def Let_def)

text \<open>
  The cells an entry point assigns, in terms of the store before the call. A cell
  assigned by an earlier statement must not be a cell a later statement reads: the output
  pointer must not be one or two cells above a vector that is read.
\<close>

lemma customM_cells:
  assumes "M \<noteq> q + 1" "M \<noteq> q + 2"
  shows "customM M q q_dot q_ddot W_e h M = h q"
    and "customM M q q_dot q_ddot W_e h (M + 1) = h (q + 1)"
    and "customM M q q_dot q_ddot W_e h (M + 2) = h (q + 2)"
  using assms by (auto simp: customM_def Let_def)

lemma customC_cells:
  assumes "C \<noteq> q + 1" "C \<noteq> q + 2" "C \<noteq> q_dot + 1" "C \<noteq> q_dot + 2"
  shows "customC C q q_dot q_ddot W_e h C =
           double_add (double_mul (h q) (double_of_int 2)) (h q_dot)"
    and "customC C q q_dot q_ddot W_e h (C + 1) =
           double_add (double_mul (h (q + 1)) (double_of_int 2)) (h (q_dot + 1))"
    and "customC C q q_dot q_ddot W_e h (C + 2) =
           double_add (double_mul (h (q + 2)) (double_of_int 2)) (h (q_dot + 2))"
  using assms by (auto simp: customC_def Let_def)

lemma customG_cells:
  assumes "G \<noteq> q + 1" "G \<noteq> q + 2" "G \<noteq> q_dot + 1" "G \<noteq> q_dot + 2"
  shows "customG G q q_dot q_ddot W_e h G =
           double_sub (double_mul (h q) (double_of_int 3)) (h q_dot)"
    and "customG G q q_dot q_ddot W_e h (G + 1) =
           double_sub (double_mul (h (q + 1)) (double_of_int 3)) (h (q_dot + 1))"
    and "customG G q q_dot q_ddot W_e h (G + 2) =
           double_sub (double_mul (h (q + 2)) (double_of_int 3)) (h (q_dot + 2))"
  using assms by (auto simp: customG_def Let_def)

lemma customL_cells:
  assumes "L \<noteq> q + 1" "L \<noteq> q + 2" "L \<noteq> q_dot + 1" "L \<noteq> q_dot + 2"
  shows "customL L q q_dot q_ddot W_e h L = double_mul (h q) (h q_dot)"
    and "customL L q q_dot q_ddot W_e h (L + 1) = double_mul (h (q + 1)) (h (q_dot + 1))"
    and "customL L q q_dot q_ddot W_e h (L + 2) = double_mul (h (q + 2)) (h (q_dot + 2))"
  using assms by (auto simp: customL_def Let_def)

text \<open>
  The assigned cells are determined by the six cells \<^verbatim>\<open>q[0..2]\<close> and \<^verbatim>\<open>q_dot[0..2]\<close>
  of the store before the call, wherever the five pointers point: a cell read by a later
  statement either still has its first content or was assigned a value determined by
  these six. The arguments \<^verbatim>\<open>q_ddot\<close> and \<^verbatim>\<open>W_e\<close> are never used.
\<close>

lemma customCableLengths_same:
  assumes "h1 q_dot = h2 q_dot"
  shows "customCableLengths l q q_dot a1 w1 h1 l = customCableLengths l q q_dot a2 w2 h2 l"
  using assms by (simp add: customCableLengths_def)

lemma customM_same:
  assumes "h1 q = h2 q" "h1 (q + 1) = h2 (q + 1)" "h1 (q + 2) = h2 (q + 2)"
    and "i < 3"
  shows "customM M q q_dot a1 w1 h1 (M + i) = customM M q q_dot a2 w2 h2 (M + i)"
  using assms index_below_3 [of i] by (auto simp: customM_def Let_def)

lemma customC_same:
  assumes "h1 q = h2 q" "h1 (q + 1) = h2 (q + 1)" "h1 (q + 2) = h2 (q + 2)"
    and "h1 q_dot = h2 q_dot" "h1 (q_dot + 1) = h2 (q_dot + 1)"
      "h1 (q_dot + 2) = h2 (q_dot + 2)"
    and "i < 3"
  shows "customC C q q_dot a1 w1 h1 (C + i) = customC C q q_dot a2 w2 h2 (C + i)"
  using assms index_below_3 [of i] by (auto simp: customC_def Let_def)

lemma customG_same:
  assumes "h1 q = h2 q" "h1 (q + 1) = h2 (q + 1)" "h1 (q + 2) = h2 (q + 2)"
    and "h1 q_dot = h2 q_dot" "h1 (q_dot + 1) = h2 (q_dot + 1)"
      "h1 (q_dot + 2) = h2 (q_dot + 2)"
    and "i < 3"
  shows "customG G q q_dot a1 w1 h1 (G + i) = customG G q q_dot a2 w2 h2 (G + i)"
  using assms index_below_3 [of i] by (auto simp: customG_def Let_def)

lemma customL_same:
  assumes "h1 q = h2 q" "h1 (q + 1) = h2 (q + 1)" "h1 (q + 2) = h2 (q + 2)"
    and "h1 q_dot = h2 q_dot" "h1 (q_dot + 1) = h2 (q_dot + 1)"
      "h1 (q_dot + 2) = h2 (q_dot + 2)"
    and "i < 3"
  shows "customL L q q_dot a1 w1 h1 (L + i) = customL L q q_dot a2 w2 h2 (L + i)"
  using assms index_below_3 [of i] by (auto simp: customL_def Let_def)

text \<open>
  For \<^verbatim>\<open>customM\<close> the two excluded placements are the only ones that spoil the copy.
\<close>

lemma customM_copy_iff:
  "(\<forall>h. \<forall>i<3. customM M q q_dot q_ddot W_e h (M + i) = h (q + i)) \<longleftrightarrow>
   M \<noteq> q + 1 \<and> M \<noteq> q + 2"
proof
  assume copy: "\<forall>h. \<forall>i<3. customM M q q_dot q_ddot W_e h (M + i) = h (q + i)"
  let ?h = "\<lambda>a. if a = q then double_of_int 1 else double_of_int 2"
  from copy have cell: "customM M q q_dot q_ddot W_e ?h (M + i) = ?h (q + i)" if "i < 3" for i
    using that by blast
  have 1: "customM M q q_dot q_ddot W_e ?h (M + 1) = ?h (q + 1)"
    and 2: "customM M q q_dot q_ddot W_e ?h (M + 2) = ?h (q + 2)"
    by (rule cell, simp)+
  have "M \<noteq> q + 1"
  proof
    assume "M = q + 1"
    with 1 show False by (simp add: customM_def Let_def small_doubles_distinct)
  qed
  moreover have "M \<noteq> q + 2"
  proof
    assume "M = q + 2"
    with 2 show False by (simp add: customM_def Let_def small_doubles_distinct)
  qed
  ultimately show "M \<noteq> q + 1 \<and> M \<noteq> q + 2" ..
next
  assume "M \<noteq> q + 1 \<and> M \<noteq> q + 2"
  then have "M \<noteq> q + 1" "M \<noteq> q + 2" by simp_all
  note cells = customM_cells [OF this]
  show "\<forall>h. \<forall>i<3. customM M q q_dot q_ddot W_e h (M + i) = h (q + i)"
  proof (intro allI impI)
    fix h and i :: nat
    assume "i < 3"
    then have "i = 0 \<or> i = 1 \<or> i = 2" by (rule index_below_3)
    then show "customM M q q_dot q_ddot W_e h (M + i) = h (q + i)"
      using cells by auto
  qed
qed







lemma same_vector_cells:
  assumes "same_vector p n h1 h2" "3 \<le> n"
  shows "h1 p = h2 p" "h1 (p + 1) = h2 (p + 1)" "h1 (p + 2) = h2 (p + 2)"
proof -
  have "\<And>i. i < 3 \<Longrightarrow> h1 (p + i) = h2 (p + i)"
    using assms by (simp add: same_vector_def)
  from this [of 0] this [of 1] this [of 2]
  show "h1 p = h2 p" "h1 (p + 1) = h2 (p + 1)" "h1 (p + 2) = h2 (p + 2)"
    by simp_all
qed

subsection \<open>The values written\<close>

text \<open>
  \<^bold>\<open>C1.\<close> \<^verbatim>\<open>customM\<close> leaves in \<^verbatim>\<open>M[i]\<close> the value \<^verbatim>\<open>q[i]\<close> had before the call, for
  \<open>i = 0, 1, 2\<close>, and for \<open>q = [1, 2, 3]\<close> the output prefix is \<open>[1, 2, 3]\<close>. The
  three assignments run in order on one store, so this needs that \<open>M\<close> is neither
  \<open>q + 1\<close> nor \<open>q + 2\<close>: then no assignment overwrites a cell of \<open>q\<close> that a later one
  reads. Every other placement of \<open>M\<close> is covered, \<open>M = q\<close> too.
\<close>

theorem customM_output:
  assumes "M \<noteq> q + 1" and "M \<noteq> q + 2"
  shows "(\<forall>i<3. customM M q q_dot q_ddot W_e h (M + i) = h (q + i)) \<and>
         (vec3 q h = map double_of_int [1, 2, 3] \<longrightarrow>
          vec3 M (customM M q q_dot q_ddot W_e h) = map double_of_int [1, 2, 3])"
proof
  show "\<forall>i<3. customM M q q_dot q_ddot W_e h (M + i) = h (q + i)"
  proof (intro allI impI)
    fix i :: nat
    assume "i < 3"
    then have "i = 0 \<or> i = 1 \<or> i = 2" by (rule index_below_3)
    then show "customM M q q_dot q_ddot W_e h (M + i) = h (q + i)"
      using customM_cells [OF assms] by auto
  qed
  show "vec3 q h = map double_of_int [1, 2, 3] \<longrightarrow>
        vec3 M (customM M q q_dot q_ddot W_e h) = map double_of_int [1, 2, 3]"
    using customM_cells [OF assms] by (simp add: vec3_def)
qed

text \<open>The worked example, with the output buffer at 0 and \<open>q\<close> at 10.\<close>

theorem customM_output_witness:
  "(0::addr) \<noteq> 10 + 1 \<and> (0::addr) \<noteq> 10 + 2 \<and>
   vec3 10 example_mem = map double_of_int [1, 2, 3] \<and>
   vec3 0 (customM 0 10 20 30 40 example_mem) = map double_of_int [1, 2, 3] \<and>
   (2::nat) < 3 \<and>
   customM 0 10 20 30 40 example_mem (0 + 2) =
     example_mem (10 + 2)"
  using customM_output [of 0 10 20 30 40 example_mem]
  by (simp add: vec3_def example_mem_def)

text \<open>
  With \<open>M = q + 1\<close> the first assignment overwrites \<^verbatim>\<open>q[1]\<close> before the second reads
  it: for \<open>q = [1, 2, 3]\<close> the output prefix is \<open>[1, 1, 1]\<close>.
\<close>

theorem customM_overlap_counterexample:
  "vec3 10 example_mem = map double_of_int [1, 2, 3] \<and>
   vec3 11 (customM 11 10 20 30 40 example_mem) = map double_of_int [1, 1, 1] \<and>
   customM 11 10 20 30 40 example_mem (11 + 1) \<noteq> example_mem (10 + 1)"
  by (simp add: vec3_def customM_def example_mem_def Let_def small_doubles_distinct)

text \<open>
  \<^bold>\<open>C2.\<close> \<^verbatim>\<open>customC\<close> leaves in \<^verbatim>\<open>C[i]\<close> the value \<open>2 * q[i] + q_dot[i]\<close>, computed in
  \<^verbatim>\<open>double\<close> arithmetic from the values before the call, for \<open>i = 0, 1, 2\<close>, and for
  \<open>q = [1, 2, 3]\<close>, \<open>q_dot = [4, 5, 6]\<close> the output prefix is \<open>[6, 9, 12]\<close>. This needs
  that \<open>C\<close> is not one or two cells above \<open>q\<close> or \<open>q_dot\<close>.
\<close>

theorem customC_output:
  assumes "C \<noteq> q + 1" and "C \<noteq> q + 2" and "C \<noteq> q_dot + 1" and "C \<noteq> q_dot + 2"
  shows "(\<forall>i<3. customC C q q_dot q_ddot W_e h (C + i) =
            double_add (double_mul (double_of_int 2) (h (q + i))) (h (q_dot + i))) \<and>
         (vec3 q h = map double_of_int [1, 2, 3] \<and>
          vec3 q_dot h = map double_of_int [4, 5, 6] \<longrightarrow>
          vec3 C (customC C q q_dot q_ddot W_e h) = map double_of_int [6, 9, 12])"
proof
  show "\<forall>i<3. customC C q q_dot q_ddot W_e h (C + i) =
          double_add (double_mul (double_of_int 2) (h (q + i))) (h (q_dot + i))"
  proof (intro allI impI)
    fix i :: nat
    assume "i < 3"
    then have "i = 0 \<or> i = 1 \<or> i = 2" by (rule index_below_3)
    then show "customC C q q_dot q_ddot W_e h (C + i) =
        double_add (double_mul (double_of_int 2) (h (q + i))) (h (q_dot + i))"
      using customC_cells [OF assms] double_mul_commute [of "double_of_int 2"] by auto
  qed
  show "vec3 q h = map double_of_int [1, 2, 3] \<and>
        vec3 q_dot h = map double_of_int [4, 5, 6] \<longrightarrow>
        vec3 C (customC C q q_dot q_ddot W_e h) = map double_of_int [6, 9, 12]"
    using customC_cells [OF assms] by (simp add: vec3_def sample_customC_arith)
qed

theorem customC_output_witness:
  "(0::addr) \<noteq> 10 + 1 \<and> (0::addr) \<noteq> 10 + 2 \<and> (0::addr) \<noteq> 20 + 1 \<and> (0::addr) \<noteq> 20 + 2 \<and>
   vec3 10 example_mem = map double_of_int [1, 2, 3] \<and>
   vec3 20 example_mem = map double_of_int [4, 5, 6] \<and>
   vec3 0 (customC 0 10 20 30 40 example_mem) = map double_of_int [6, 9, 12] \<and>
   (2::nat) < 3 \<and>
   customC 0 10 20 30 40 example_mem (0 + 2) =
     double_add (double_mul (double_of_int 2) (example_mem (10 + 2))) (example_mem (20 + 2))"
  using customC_output [of 0 10 20 30 40 example_mem]
  by (simp add: vec3_def example_mem_def sample_customC_arith)

text \<open>
  With \<open>C = q + 1\<close> the first assignment stores 6 in \<^verbatim>\<open>q[1]\<close>, and the second computes
  \<open>6 * 2 + 5 = 17\<close> where \<open>2 * 2 + 5 = 9\<close> is expected.
\<close>

theorem customC_overlap_counterexample:
  "customC 11 10 20 30 40 example_mem (11 + 1) = double_of_int 17 \<and>
   double_add (double_mul (double_of_int 2) (example_mem (10 + 1))) (example_mem (20 + 1)) =
     double_of_int 9 \<and>
   double_of_int 17 \<noteq> double_of_int 9"
  by (simp add: customC_def example_mem_def Let_def sample_customC_arith
      small_doubles_distinct)

text \<open>
  \<^bold>\<open>C3.\<close> \<^verbatim>\<open>customG\<close> leaves in \<^verbatim>\<open>G[i]\<close> the value \<open>3 * q[i] - q_dot[i]\<close>, computed in
  \<^verbatim>\<open>double\<close> arithmetic from the values before the call, for \<open>i = 0, 1, 2\<close>, and for
  \<open>q = [1, 2, 3]\<close>, \<open>q_dot = [4, 5, 6]\<close> the output prefix is \<open>[-1, 1, 3]\<close>. This needs
  that \<open>G\<close> is not one or two cells above \<open>q\<close> or \<open>q_dot\<close>.
\<close>

theorem customG_output:
  assumes "G \<noteq> q + 1" and "G \<noteq> q + 2" and "G \<noteq> q_dot + 1" and "G \<noteq> q_dot + 2"
  shows "(\<forall>i<3. customG G q q_dot q_ddot W_e h (G + i) =
            double_sub (double_mul (double_of_int 3) (h (q + i))) (h (q_dot + i))) \<and>
         (vec3 q h = map double_of_int [1, 2, 3] \<and>
          vec3 q_dot h = map double_of_int [4, 5, 6] \<longrightarrow>
          vec3 G (customG G q q_dot q_ddot W_e h) = map double_of_int [- 1, 1, 3])"
proof
  show "\<forall>i<3. customG G q q_dot q_ddot W_e h (G + i) =
          double_sub (double_mul (double_of_int 3) (h (q + i))) (h (q_dot + i))"
  proof (intro allI impI)
    fix i :: nat
    assume "i < 3"
    then have "i = 0 \<or> i = 1 \<or> i = 2" by (rule index_below_3)
    then show "customG G q q_dot q_ddot W_e h (G + i) =
        double_sub (double_mul (double_of_int 3) (h (q + i))) (h (q_dot + i))"
      using customG_cells [OF assms] double_mul_commute [of "double_of_int 3"] by auto
  qed
  show "vec3 q h = map double_of_int [1, 2, 3] \<and>
        vec3 q_dot h = map double_of_int [4, 5, 6] \<longrightarrow>
        vec3 G (customG G q q_dot q_ddot W_e h) = map double_of_int [- 1, 1, 3]"
    using customG_cells [OF assms] by (simp add: vec3_def sample_customG_arith)
qed

theorem customG_output_witness:
  "(0::addr) \<noteq> 10 + 1 \<and> (0::addr) \<noteq> 10 + 2 \<and> (0::addr) \<noteq> 20 + 1 \<and> (0::addr) \<noteq> 20 + 2 \<and>
   vec3 10 example_mem = map double_of_int [1, 2, 3] \<and>
   vec3 20 example_mem = map double_of_int [4, 5, 6] \<and>
   vec3 0 (customG 0 10 20 30 40 example_mem) = map double_of_int [- 1, 1, 3] \<and>
   (2::nat) < 3 \<and>
   customG 0 10 20 30 40 example_mem (0 + 2) =
     double_sub (double_mul (double_of_int 3) (example_mem (10 + 2))) (example_mem (20 + 2))"
  using customG_output [of 0 10 20 30 40 example_mem]
  by (simp add: vec3_def example_mem_def sample_customG_arith)

text \<open>
  With \<open>G = q + 1\<close> the first assignment stores \<open>-1\<close> in \<^verbatim>\<open>q[1]\<close>, and the second
  computes \<open>-1 * 3 - 5 = -8\<close> where \<open>3 * 2 - 5 = 1\<close> is expected.
\<close>

theorem customG_overlap_counterexample:
  "customG 11 10 20 30 40 example_mem (11 + 1) = double_of_int (- 8) \<and>
   double_sub (double_mul (double_of_int 3) (example_mem (10 + 1))) (example_mem (20 + 1)) =
     double_of_int 1 \<and>
   double_of_int (- 8) \<noteq> double_of_int 1"
  by (simp add: customG_def example_mem_def Let_def sample_customG_arith
      small_doubles_distinct)

text \<open>
  \<^bold>\<open>C4.\<close> \<^verbatim>\<open>customL\<close> leaves in \<^verbatim>\<open>L[i]\<close> the value \<open>q[i] * q_dot[i]\<close>, computed in
  \<^verbatim>\<open>double\<close> arithmetic from the values before the call, for \<open>i = 0, 1, 2\<close>, and for
  \<open>q = [1, 2, 3]\<close>, \<open>q_dot = [4, 5, 6]\<close> the output prefix is \<open>[4, 10, 18]\<close>. This needs
  that \<open>L\<close> is not one or two cells above \<open>q\<close> or \<open>q_dot\<close>.
\<close>

theorem customL_output:
  assumes "L \<noteq> q + 1" and "L \<noteq> q + 2" and "L \<noteq> q_dot + 1" and "L \<noteq> q_dot + 2"
  shows "(\<forall>i<3. customL L q q_dot q_ddot W_e h (L + i) =
            double_mul (h (q + i)) (h (q_dot + i))) \<and>
         (vec3 q h = map double_of_int [1, 2, 3] \<and>
          vec3 q_dot h = map double_of_int [4, 5, 6] \<longrightarrow>
          vec3 L (customL L q q_dot q_ddot W_e h) = map double_of_int [4, 10, 18])"
proof
  show "\<forall>i<3. customL L q q_dot q_ddot W_e h (L + i) =
          double_mul (h (q + i)) (h (q_dot + i))"
  proof (intro allI impI)
    fix i :: nat
    assume "i < 3"
    then have "i = 0 \<or> i = 1 \<or> i = 2" by (rule index_below_3)
    then show "customL L q q_dot q_ddot W_e h (L + i) =
        double_mul (h (q + i)) (h (q_dot + i))"
      using customL_cells [OF assms] by auto
  qed
  show "vec3 q h = map double_of_int [1, 2, 3] \<and>
        vec3 q_dot h = map double_of_int [4, 5, 6] \<longrightarrow>
        vec3 L (customL L q q_dot q_ddot W_e h) = map double_of_int [4, 10, 18]"
    using customL_cells [OF assms] by (simp add: vec3_def sample_customL_arith)
qed

theorem customL_output_witness:
  "(0::addr) \<noteq> 10 + 1 \<and> (0::addr) \<noteq> 10 + 2 \<and> (0::addr) \<noteq> 20 + 1 \<and> (0::addr) \<noteq> 20 + 2 \<and>
   vec3 10 example_mem = map double_of_int [1, 2, 3] \<and>
   vec3 20 example_mem = map double_of_int [4, 5, 6] \<and>
   vec3 0 (customL 0 10 20 30 40 example_mem) = map double_of_int [4, 10, 18] \<and>
   (2::nat) < 3 \<and>
   customL 0 10 20 30 40 example_mem (0 + 2) =
     double_mul (example_mem (10 + 2)) (example_mem (20 + 2))"
  using customL_output [of 0 10 20 30 40 example_mem]
  by (simp add: vec3_def example_mem_def sample_customL_arith)

text \<open>
  With \<open>L = q + 1\<close> the first assignment stores 4 in \<^verbatim>\<open>q[1]\<close>, and the second computes
  \<open>4 * 5 = 20\<close> where \<open>2 * 5 = 10\<close> is expected.
\<close>

theorem customL_overlap_counterexample:
  "customL 11 10 20 30 40 example_mem (11 + 1) = double_of_int 20 \<and>
   double_mul (example_mem (10 + 1)) (example_mem (20 + 1)) = double_of_int 10 \<and>
   double_of_int 20 \<noteq> double_of_int 10"
  by (simp add: customL_def example_mem_def Let_def sample_customL_arith
      small_doubles_distinct)

text \<open>
  \<^bold>\<open>C5.\<close> \<^verbatim>\<open>customCableLengths\<close> leaves in \<^verbatim>\<open>l[0]\<close> the value \<^verbatim>\<open>q_dot[0]\<close> had before
  the call, wherever the pointers point, and every other entry \<^verbatim>\<open>l[i]\<close>, \<open>i > 0\<close>, of
  the output buffer keeps its value.
\<close>

theorem customCableLengths_output:
  "customCableLengths l q q_dot q_ddot W_e h l = h q_dot \<and>
   (0 < i \<longrightarrow> customCableLengths l q q_dot q_ddot W_e h (l + i) = h (l + i))"
  by (simp add: customCableLengths_def)

theorem customCableLengths_output_witness:
  "customCableLengths 0 10 20 30 40 stale_mem 0 = double_of_int 4 \<and>
   (0::nat) < 1 \<and>
   customCableLengths 0 10 20 30 40 stale_mem (0 + 1) = double_of_int 8"
  using customCableLengths_output [of 0 10 20 30 40 stale_mem 1]
  by (simp add: stale_mem_def example_mem_def)

subsection \<open>The cells left alone\<close>

text \<open>
  \<^bold>\<open>C6.\<close> An entry point changes no cell of the store other than the cells of its
  output buffer that it assigns: index 0 for \<^verbatim>\<open>customCableLengths\<close>, indices 0, 1, 2 for
  the other four. So every cell of \<^verbatim>\<open>q\<close>, \<^verbatim>\<open>q_dot\<close>, \<^verbatim>\<open>q_ddot\<close> and \<^verbatim>\<open>W_e\<close> that is not
  one of these cells keeps its value, and an input vector that does not overlap them is
  unchanged.
\<close>

theorem entry_points_frame:
  "(a \<noteq> out \<longrightarrow> customCableLengths out q q_dot q_ddot W_e h a = h a) \<and>
   (a \<notin> {out, out + 1, out + 2} \<longrightarrow>
      customM out q q_dot q_ddot W_e h a = h a \<and>
      customC out q q_dot q_ddot W_e h a = h a \<and>
      customG out q q_dot q_ddot W_e h a = h a \<and>
      customL out q q_dot q_ddot W_e h a = h a)"
  by (simp add: customCableLengths_frame customM_frame customC_frame customG_frame
      customL_frame)

text \<open>In the worked example \<^verbatim>\<open>q[1]\<close>, at address 11, is still 2 after each of the calls.\<close>

theorem entry_points_frame_witness:
  "(11::addr) \<noteq> 0 \<and> (11::addr) \<notin> {0, 0 + 1, 0 + 2} \<and>
   customCableLengths 0 10 20 30 40 example_mem 11 = double_of_int 2 \<and>
   customM 0 10 20 30 40 example_mem 11 = double_of_int 2 \<and>
   customC 0 10 20 30 40 example_mem 11 = double_of_int 2 \<and>
   customG 0 10 20 30 40 example_mem 11 = double_of_int 2 \<and>
   customL 0 10 20 30 40 example_mem 11 = double_of_int 2"
  using entry_points_frame [of 11 0 10 20 30 40 example_mem]
  by (simp add: example_mem_def)

text \<open>
  An input vector that is also the output buffer is changed: called with \<open>l = q\<close>,
  \<^verbatim>\<open>customCableLengths\<close> replaces \<^verbatim>\<open>q[0] = 1\<close> by \<^verbatim>\<open>q_dot[0] = 4\<close>.
\<close>

theorem input_overwritten_counterexample:
  "example_mem 10 = double_of_int 1 \<and>
   customCableLengths 10 10 20 30 40 example_mem 10 = double_of_int 4 \<and>
   customCableLengths 10 10 20 30 40 example_mem 10 \<noteq> example_mem 10"
  by (simp add: customCableLengths_def example_mem_def small_doubles_distinct
      small_doubles_distinct(2) [symmetric])

text \<open>
  \<^bold>\<open>C7.\<close> \<^verbatim>\<open>mexFunction\<close> does nothing: whatever its arguments, the state after the
  call is the state before it. The function returns \<^verbatim>\<open>void\<close>, so there is no result
  either.
\<close>

theorem mexFunction_no_effect: "mexFunction nlhs plhs nrhs prhs s = s"
  by (simp add: mexFunction_def)

text \<open>
  \<^bold>\<open>C10.\<close> \<^verbatim>\<open>customM\<close>, \<^verbatim>\<open>customC\<close>, \<^verbatim>\<open>customG\<close> and \<^verbatim>\<open>customL\<close> leave every entry of
  the output buffer at index 3 or above as it was.
\<close>

theorem output_from_index_3_unchanged:
  "3 \<le> i \<Longrightarrow>
   customM out q q_dot q_ddot W_e h (out + i) = h (out + i) \<and>
   customC out q q_dot q_ddot W_e h (out + i) = h (out + i) \<and>
   customG out q q_dot q_ddot W_e h (out + i) = h (out + i) \<and>
   customL out q q_dot q_ddot W_e h (out + i) = h (out + i)"
  by (simp add: customM_frame customC_frame customG_frame customL_frame)

text \<open>
  Called with the output buffer at 8 in the worked example, so that \<^verbatim>\<open>out[3]\<close> is the
  cell 11 holding 2.
\<close>

theorem output_from_index_3_unchanged_witness:
  "(3::nat) \<le> 3 \<and>
   customM 8 10 20 30 40 example_mem (8 + 3) = double_of_int 2 \<and>
   customC 8 10 20 30 40 example_mem (8 + 3) = double_of_int 2 \<and>
   customG 8 10 20 30 40 example_mem (8 + 3) = double_of_int 2 \<and>
   customL 8 10 20 30 40 example_mem (8 + 3) = double_of_int 2"
  using output_from_index_3_unchanged [of 3 8 10 20 30 40 example_mem]
  by (simp add: example_mem_def)

subsection \<open>What the written values depend on\<close>




text \<open>
  \<^bold>\<open>C9.\<close> The values an entry point writes into its output buffer do not depend on
  \<^verbatim>\<open>q_ddot\<close> and \<^verbatim>\<open>W_e\<close>: two calls with the same \<open>out\<close>, \<open>q\<close>, \<open>q_dot\<close>, in two stores
  that hold the same vectors \<^verbatim>\<open>q\<close> and \<^verbatim>\<open>q_dot\<close> (of a length \<open>n \<ge> 3\<close>), write the
  same values whatever the two pointers \<open>q_ddot\<close>, \<open>W_e\<close> are and whatever the stores hold
  there.
\<close>

theorem output_independent_of_q_ddot_W_e:
  assumes "3 \<le> n"
    and "same_vector q n h1 h2" and "same_vector q_dot n h1 h2"
    and "i < 3"
  shows "customCableLengths out q q_dot q_ddot W_e h1 out =
           customCableLengths out q q_dot q_ddot' W_e' h2 out \<and>
         customM out q q_dot q_ddot W_e h1 (out + i) =
           customM out q q_dot q_ddot' W_e' h2 (out + i) \<and>
         customC out q q_dot q_ddot W_e h1 (out + i) =
           customC out q q_dot q_ddot' W_e' h2 (out + i) \<and>
         customG out q q_dot q_ddot W_e h1 (out + i) =
           customG out q q_dot q_ddot' W_e' h2 (out + i) \<and>
         customL out q q_dot q_ddot W_e h1 (out + i) =
           customL out q q_dot q_ddot' W_e' h2 (out + i)"
proof -
  note q = same_vector_cells [OF \<open>same_vector q n h1 h2\<close> \<open>3 \<le> n\<close>]
  note q_dot = same_vector_cells [OF \<open>same_vector q_dot n h1 h2\<close> \<open>3 \<le> n\<close>]
  show ?thesis
    by (intro conjI customCableLengths_same customM_same customC_same customG_same
        customL_same q q_dot \<open>i < 3\<close>)
qed

text \<open>
  The worked example against the store that holds 7 at address 30 and 8 at address 40,
  once with \<open>q_ddot\<close> at 30 and \<open>W_e\<close> at 40 and once with the two exchanged.
\<close>

theorem output_independent_of_q_ddot_W_e_witness:
  "(3::nat) \<le> 3 \<and>
   same_vector 10 3 example_mem other_mem \<and> same_vector 20 3 example_mem other_mem \<and>
   (2::nat) < 3 \<and> example_mem 30 \<noteq> other_mem 30 \<and> example_mem 40 \<noteq> other_mem 40 \<and>
   customCableLengths 0 10 20 30 40 example_mem 0 =
     customCableLengths 0 10 20 40 30 other_mem 0 \<and>
   customM 0 10 20 30 40 example_mem (0 + 2) = customM 0 10 20 40 30 other_mem (0 + 2) \<and>
   customC 0 10 20 30 40 example_mem (0 + 2) = customC 0 10 20 40 30 other_mem (0 + 2) \<and>
   customG 0 10 20 30 40 example_mem (0 + 2) = customG 0 10 20 40 30 other_mem (0 + 2) \<and>
   customL 0 10 20 30 40 example_mem (0 + 2) = customL 0 10 20 40 30 other_mem (0 + 2)"
proof -
  have same:
    "same_vector 10 3 example_mem other_mem" "same_vector 20 3 example_mem other_mem"
    by (simp_all add: same_vector_def other_mem_def)
  have differ: "example_mem 30 \<noteq> other_mem 30" "example_mem 40 \<noteq> other_mem 40"
    by (simp_all add: other_mem_def example_mem_def double_eval)
  show ?thesis
    using same differ
      output_independent_of_q_ddot_W_e [where n = 3 and q = 10 and q_dot = 20
        and ?h1.0 = example_mem and ?h2.0 = other_mem and i = 2 and out = 0
        and q_ddot = 30 and W_e = 40 and q_ddot' = 40 and W_e' = 30]
    by simp
qed

end
